theory Spec2Isabelle
  imports Complex_Main "HOL-Library.Word" "HOL-Library.AList"
begin

section \<open>JavaScript strings\<close>

text \<open>
  A JavaScript string is a sequence of UTF-16 code units. Property names and other
  identifiers of the program text are kept as HOL strings; run-time text (prompts,
  model identifiers, request bodies) is a list of code units. \<open>ascii\<close> embeds an ASCII
  literal of the source.
\<close>

type_synonym code_unit = "16 word"
type_synonym js_string = "code_unit list"

definition ascii :: "string \<Rightarrow> js_string" where
  "ascii cs = map of_char cs"

section \<open>Regular expressions\<close>

text \<open>
  The pattern table of \<^verbatim>\<open>router.js\<close> uses literals, character classes, the
  escapes \<^verbatim>\<open>\d \w \s \S \b\<close>, the dot, grouping with alternation, the greedy
  quantifiers \<^verbatim>\<open>*\<close> and \<^verbatim>\<open>+\<close>, and the flag \<^verbatim>\<open>i\<close>. No pattern has the
  flags \<^verbatim>\<open>g\<close> or \<^verbatim>\<open>y\<close>, so \<^verbatim>\<open>RegExp.prototype.test\<close> keeps no state between
  calls and is a function of the pattern and the text alone: it answers whether the
  pattern matches at some start index.
\<close>

datatype class_item =
    Single code_unit
  | Between code_unit code_unit
  | ClassD
  | ClassW
  | ClassS
  | ClassNotS

datatype regex =
    Lit js_string
  | OneOf "class_item list"
  | NoneOf "class_item list"
  | AnyChar
  | WordB
  | Cat "regex list"
  | Alt "regex list"
  | Star regex
  | Plus regex

datatype regexp = RegExp (pattern: regex) (ignoreCase: bool)

definition isDigit :: "code_unit \<Rightarrow> bool" where
  "isDigit c = (0x30 \<le> c \<and> c \<le> 0x39)"

definition isWordChar :: "code_unit \<Rightarrow> bool" where
  "isWordChar c =
     ((0x61 \<le> c \<and> c \<le> 0x7A) \<or> (0x41 \<le> c \<and> c \<le> 0x5A) \<or> isDigit c \<or> c = 0x5F)"

definition isLineTerminator :: "code_unit \<Rightarrow> bool" where
  "isLineTerminator c = (c = 0x0A \<or> c = 0x0D \<or> c = 0x2028 \<or> c = 0x2029)"

text \<open>
  \<^verbatim>\<open>\s\<close>: the white space and line terminator code points of ECMAScript
  (TAB, VT, FF, SP, NBSP, ZWNBSP, the Unicode space separators, LF, CR, LS, PS).
\<close>

definition isWhiteSpace :: "code_unit \<Rightarrow> bool" where
  "isWhiteSpace c =
     ((0x09 \<le> c \<and> c \<le> 0x0D) \<or> c = 0x20 \<or> c = 0xA0 \<or> c = 0x1680
      \<or> (0x2000 \<le> c \<and> c \<le> 0x200A) \<or> c = 0x2028 \<or> c = 0x2029 \<or> c = 0x202F
      \<or> c = 0x205F \<or> c = 0x3000 \<or> c = 0xFEFF)"

text \<open>
  Canonicalize of the \<^verbatim>\<open>i\<close> flag (without \<^verbatim>\<open>u\<close>): the upper-case mapping of a
  single code unit, except that a code unit above 127 never maps into ASCII. Only the
  characters whose canonical form is that of a character of the pattern table matter to
  a comparison with a pattern character: the ASCII letters, the Cyrillic letters of the
  Russian keywords and the Cyrillic Extended-C small letters that share their upper-case
  form. Every other code unit is compared as itself. (The CJK characters of the table
  have no case.)
\<close>

definition canonicalize :: "code_unit \<Rightarrow> code_unit" where
  "canonicalize c =
     (if 0x61 \<le> c \<and> c \<le> 0x7A then c - 0x20
      else if 0x430 \<le> c \<and> c \<le> 0x44F then c - 0x20
      else if c = 0x1C80 then 0x412
      else if c = 0x1C81 then 0x414
      else if c = 0x1C82 then 0x41E
      else if c = 0x1C83 then 0x421
      else if c = 0x1C84 \<or> c = 0x1C85 then 0x422
      else if c = 0x1C86 then 0x42A
      else c)"

definition same_char :: "bool \<Rightarrow> code_unit \<Rightarrow> code_unit \<Rightarrow> bool" where
  "same_char ic a b = (if ic then canonicalize a = canonicalize b else a = b)"

fun in_item :: "bool \<Rightarrow> code_unit \<Rightarrow> class_item \<Rightarrow> bool" where
  "in_item ic c (Single a) = same_char ic a c"
| "in_item ic c (Between a b) = (a \<le> c \<and> c \<le> b)"
| "in_item ic c ClassD = isDigit c"
| "in_item ic c ClassW = isWordChar c"
| "in_item ic c ClassS = isWhiteSpace c"
| "in_item ic c ClassNotS = (\<not> isWhiteSpace c)"

definition in_class :: "bool \<Rightarrow> class_item list \<Rightarrow> code_unit \<Rightarrow> bool" where
  "in_class ic items c = list_ex (in_item ic c) items"

text \<open>
  A position of the text is the code unit before it (none at the start) and the text
  that remains. \<open>lit_at\<close> consumes a literal; \<open>word_boundary\<close> is the assertion
  \<^verbatim>\<open>\b\<close>.
\<close>

type_synonym position = "code_unit option \<times> js_string"

fun lit_at :: "bool \<Rightarrow> js_string \<Rightarrow> position \<Rightarrow> position list" where
  "lit_at ic [] pos = [pos]"
| "lit_at ic (a # as) (p, []) = []"
| "lit_at ic (a # as) (p, c # cs) =
     (if same_char ic a c then lit_at ic as (Some c, cs) else [])"

definition char_at :: "(code_unit \<Rightarrow> bool) \<Rightarrow> position \<Rightarrow> position list" where
  "char_at ok pos =
     (case snd pos of [] \<Rightarrow> [] | c # cs \<Rightarrow> if ok c then [(Some c, cs)] else [])"

definition word_boundary :: "position \<Rightarrow> bool" where
  "word_boundary pos =
     ((case fst pos of None \<Rightarrow> False | Some c \<Rightarrow> isWordChar c)
      \<noteq> (case snd pos of [] \<Rightarrow> False | c # cs \<Rightarrow> isWordChar c))"

text \<open>
  Repetition: every chain of iterations that each consume at least one code unit. The
  fuel is the length of the remaining text, which such a chain cannot exceed.
\<close>

fun repeat :: "(position \<Rightarrow> position list) \<Rightarrow> nat \<Rightarrow> position \<Rightarrow> position list" where
  "repeat f 0 pos = [pos]"
| "repeat f (Suc n) pos =
     pos # concat (map (repeat f n)
                    (filter (\<lambda>q. length (snd q) < length (snd pos)) (f pos)))"

text \<open>\<open>ends ic r pos\<close>: the positions at which a match of \<open>r\<close> begun at \<open>pos\<close> can end.\<close>

fun ends :: "bool \<Rightarrow> regex \<Rightarrow> position \<Rightarrow> position list" where
  "ends ic (Lit cs) pos = lit_at ic cs pos"
| "ends ic (OneOf items) pos = char_at (in_class ic items) pos"
| "ends ic (NoneOf items) pos = char_at (\<lambda>c. \<not> in_class ic items c) pos"
| "ends ic AnyChar pos = char_at (\<lambda>c. \<not> isLineTerminator c) pos"
| "ends ic WordB pos = (if word_boundary pos then [pos] else [])"
| "ends ic (Cat []) pos = [pos]"
| "ends ic (Cat (r # rs)) pos = concat (map (ends ic (Cat rs)) (ends ic r pos))"
| "ends ic (Alt rs) pos = concat (map (\<lambda>r. ends ic r pos) rs)"
| "ends ic (Star r) pos = repeat (ends ic r) (length (snd pos)) pos"
| "ends ic (Plus r) pos =
     concat (map (\<lambda>q. repeat (ends ic r) (length (snd q)) q) (ends ic r pos))"

fun test_from :: "bool \<Rightarrow> regex \<Rightarrow> code_unit option \<Rightarrow> js_string \<Rightarrow> bool" where
  "test_from ic r p [] = (ends ic r (p, []) \<noteq> [])"
| "test_from ic r p (c # cs) = (ends ic r (p, c # cs) \<noteq> [] \<or> test_from ic r (Some c) cs)"

definition test :: "regexp \<Rightarrow> js_string \<Rightarrow> bool" where
  "test re s = test_from (ignoreCase re) (pattern re) None s"

section \<open>The pattern table\<close>

definition kw :: "string list \<Rightarrow> regex" where
  "kw ws = Alt (map (\<lambda>w. Lit (ascii w)) ws)"

definition ch :: "char \<Rightarrow> class_item" where
  "ch c = Single (of_char c)"

text \<open>
  \<^verbatim>\<open>/\b(prove|theorem|proof|derive|deduce|infer|logic|reasoning)\b/i\<close>,
  \<^verbatim>\<open>/\b(step[- ]by[- ]step|think through|work through|explain why)\b/i\<close>,
  the Chinese keywords U+56E0 U+4E3A, U+6240 U+4EE5, U+8BC1 U+660E, U+63A8 U+7406,
  U+5B9A U+7406 and the Japanese keywords U+306A U+305C, U+8A3C U+660E, U+7406 U+7531
  (both without flags or boundaries), and the Russian keywords
  \<^verbatim>\<open>/\b(...|...|...)/i\<close>.
\<close>

definition reasoning_patterns :: "regexp list" where
  "reasoning_patterns =
    [RegExp (Cat [WordB, kw [''prove'', ''theorem'', ''proof'', ''derive'', ''deduce'',
                            ''infer'', ''logic'', ''reasoning''], WordB]) True,
     RegExp (Cat [WordB,
                  Alt [Cat [Lit (ascii ''step''), OneOf [ch CHR ''-'', ch CHR '' ''],
                            Lit (ascii ''by''), OneOf [ch CHR ''-'', ch CHR '' ''],
                            Lit (ascii ''step'')],
                       Lit (ascii ''think through''), Lit (ascii ''work through''),
                       Lit (ascii ''explain why'')],
                  WordB]) True,
     RegExp (Alt [Lit [0x56E0, 0x4E3A], Lit [0x6240, 0x4EE5], Lit [0x8BC1, 0x660E],
                  Lit [0x63A8, 0x7406], Lit [0x5B9A, 0x7406]]) False,
     RegExp (Alt [Lit [0x306A, 0x305C], Lit [0x8A3C, 0x660E], Lit [0x7406, 0x7531]]) False,
     RegExp (Cat [WordB,
                  Alt [Lit [0x434, 0x43E, 0x43A, 0x430, 0x437, 0x430, 0x442, 0x44C],
                       Lit [0x442, 0x435, 0x43E, 0x440, 0x435, 0x43C, 0x430],
                       Lit [0x432, 0x44B, 0x432, 0x43E, 0x434]]]) True]"

text \<open>
  \<^verbatim>\<open>/\b(function|async|await|import|export|const|let|var|class|interface)\b/\<close>,
  \<^verbatim>\<open>/```[\s\S]*```/\<close>, \<^verbatim>\<open>/\b(def |return |if __name__|lambda)\b/\<close>,
  \<^verbatim>\<open>/\b(SELECT|INSERT|UPDATE|DELETE|FROM|WHERE)\b/i\<close>, \<^verbatim>\<open>/[{}();].*[{}();]/\<close>,
  \<^verbatim>\<open>/<[a-zA-Z][^>]*>/\<close>, \<^verbatim>\<open>/\bimport\s+\w+\s+from\b/\<close>.
\<close>

definition code_patterns :: "regexp list" where
  "code_patterns =
    [RegExp (Cat [WordB, kw [''function'', ''async'', ''await'', ''import'', ''export'',
                            ''const'', ''let'', ''var'', ''class'', ''interface''], WordB]) False,
     RegExp (Cat [Lit (ascii ''```''), Star (OneOf [ClassS, ClassNotS]), Lit (ascii ''```'')]) False,
     RegExp (Cat [WordB, kw [''def '', ''return '', ''if __name__'', ''lambda''], WordB]) False,
     RegExp (Cat [WordB, kw [''SELECT'', ''INSERT'', ''UPDATE'', ''DELETE'', ''FROM'', ''WHERE''],
                  WordB]) True,
     RegExp (Cat [OneOf [ch CHR ''{'', ch CHR ''}'', ch CHR ''('', ch CHR '')'', ch CHR '';''],
                  Star AnyChar,
                  OneOf [ch CHR ''{'', ch CHR ''}'', ch CHR ''('', ch CHR '')'', ch CHR '';'']]) False,
     RegExp (Cat [Lit (ascii ''<''),
                  OneOf [Between (of_char CHR ''a'') (of_char CHR ''z''),
                         Between (of_char CHR ''A'') (of_char CHR ''Z'')],
                  Star (NoneOf [ch CHR ''>'']), Lit (ascii ''>'')]) False,
     RegExp (Cat [WordB, Lit (ascii ''import''), Plus (OneOf [ClassS]), Plus (OneOf [ClassW]),
                  Plus (OneOf [ClassS]), Lit (ascii ''from''), WordB]) False]"

text \<open>
  \<^verbatim>\<open>/\b(what is|what's|define|meaning of|translate|convert)\b/i\<close>,
  \<^verbatim>\<open>/\b(who is|when was|where is|how many)\b/i\<close>, and the Chinese keywords
  U+4EC0 U+4E48 U+662F, U+662F U+4EC0 U+4E48, U+7FFB U+8BD1, U+5B9A U+4E49 and the
  Japanese keywords U+3068 U+306F, U+610F U+5473, U+7FFB U+8A33, both as
  \<^verbatim>\<open>/\b(...)/i\<close>.
\<close>

definition simple_patterns :: "regexp list" where
  "simple_patterns =
    [RegExp (Cat [WordB, kw [''what is'', ''what's'', ''define'', ''meaning of'', ''translate'',
                            ''convert''], WordB]) True,
     RegExp (Cat [WordB, kw [''who is'', ''when was'', ''where is'', ''how many''], WordB]) True,
     RegExp (Cat [WordB, Alt [Lit [0x4EC0, 0x4E48, 0x662F], Lit [0x662F, 0x4EC0, 0x4E48],
                              Lit [0x7FFB, 0x8BD1], Lit [0x5B9A, 0x4E49]]]) True,
     RegExp (Cat [WordB, Alt [Lit [0x3068, 0x306F], Lit [0x610F, 0x5473],
                              Lit [0x7FFB, 0x8A33]]]) True]"

text \<open>
  \<^verbatim>\<open>/\b(first|then|next|after that|finally|step \d)/i\<close>, \<^verbatim>\<open>/\b(1\.|2\.|3\.)/\<close>,
  \<^verbatim>\<open>/\b(phase|stage|part \d)/i\<close>.
\<close>

definition multiStep_patterns :: "regexp list" where
  "multiStep_patterns =
    [RegExp (Cat [WordB, Alt [Lit (ascii ''first''), Lit (ascii ''then''), Lit (ascii ''next''),
                              Lit (ascii ''after that''), Lit (ascii ''finally''),
                              Cat [Lit (ascii ''step ''), OneOf [ClassD]]]]) True,
     RegExp (Cat [WordB, kw [''1.'', ''2.'', ''3.'']]) False,
     RegExp (Cat [WordB, Alt [Lit (ascii ''phase''), Lit (ascii ''stage''),
                              Cat [Lit (ascii ''part ''), OneOf [ClassD]]]]) True]"

text \<open>
  \<^verbatim>\<open>/\b(algorithm|kubernetes|docker|terraform|nginx|redis)\b/i\<close>,
  \<^verbatim>\<open>/\b(distributed|microservice|scalable|concurrent|async)\b/i\<close>,
  \<^verbatim>\<open>/\b(api|sdk|rest|graphql|grpc|websocket)\b/i\<close>,
  \<^verbatim>\<open>/\b(oauth|jwt|authentication|authorization)\b/i\<close>.
\<close>

definition technical_patterns :: "regexp list" where
  "technical_patterns =
    [RegExp (Cat [WordB, kw [''algorithm'', ''kubernetes'', ''docker'', ''terraform'', ''nginx'',
                            ''redis''], WordB]) True,
     RegExp (Cat [WordB, kw [''distributed'', ''microservice'', ''scalable'', ''concurrent'',
                            ''async''], WordB]) True,
     RegExp (Cat [WordB, kw [''api'', ''sdk'', ''rest'', ''graphql'', ''grpc'', ''websocket''],
                  WordB]) True,
     RegExp (Cat [WordB, kw [''oauth'', ''jwt'', ''authentication'', ''authorization''],
                  WordB]) True]"

text \<open>
  \<^verbatim>\<open>/\b(write a story|poem|creative|brainstorm|imagine)\b/i\<close>,
  \<^verbatim>\<open>/\b(fiction|narrative|character|plot)\b/i\<close>.
\<close>

definition creative_patterns :: "regexp list" where
  "creative_patterns =
    [RegExp (Cat [WordB, kw [''write a story'', ''poem'', ''creative'', ''brainstorm'',
                            ''imagine''], WordB]) True,
     RegExp (Cat [WordB, kw [''fiction'', ''narrative'', ''character'', ''plot''], WordB]) True]"

text \<open>
  \<^verbatim>\<open>/\b(at most|at least|maximum|minimum|no more than)\b/i\<close>,
  \<^verbatim>\<open>/\bO\([nN\d\^logLog]+\)/\<close>, \<^verbatim>\<open>/\b(constraint|limit|bound|restriction)\b/i\<close>.
\<close>

definition constraints_patterns :: "regexp list" where
  "constraints_patterns =
    [RegExp (Cat [WordB, kw [''at most'', ''at least'', ''maximum'', ''minimum'',
                            ''no more than''], WordB]) True,
     RegExp (Cat [WordB, Lit (ascii ''O(''),
                  Plus (OneOf [ch CHR ''n'', ch CHR ''N'', ClassD, ch CHR ''^'', ch CHR ''l'',
                               ch CHR ''o'', ch CHR ''g'', ch CHR ''L'', ch CHR ''o'',
                               ch CHR ''g'']),
                  Lit (ascii '')'')]) False,
     RegExp (Cat [WordB, kw [''constraint'', ''limit'', ''bound'', ''restriction''],
                  WordB]) True]"

text \<open>
  \<^verbatim>\<open>/\b(build|create|implement|develop|design|write|make)\b/i\<close>,
  \<^verbatim>\<open>/\b(fix|debug|optimize|refactor|improve)\b/i\<close>.
\<close>

definition imperative_patterns :: "regexp list" where
  "imperative_patterns =
    [RegExp (Cat [WordB, kw [''build'', ''create'', ''implement'', ''develop'', ''design'',
                            ''write'', ''make''], WordB]) True,
     RegExp (Cat [WordB, kw [''fix'', ''debug'', ''optimize'', ''refactor'', ''improve''],
                  WordB]) True]"

text \<open>
  \<^verbatim>\<open>/\b(json|yaml|xml|csv|markdown|html)\b/i\<close>,
  \<^verbatim>\<open>/\b(schema|format|structure|template)\b/i\<close>.
\<close>

definition outputFormat_patterns :: "regexp list" where
  "outputFormat_patterns =
    [RegExp (Cat [WordB, kw [''json'', ''yaml'', ''xml'', ''csv'', ''markdown'', ''html''],
                  WordB]) True,
     RegExp (Cat [WordB, kw [''schema'', ''format'', ''structure'', ''template''], WordB]) True]"

text \<open>
  \<^verbatim>\<open>/\b(quantum|genomics|bioinformatics|fpga|verilog)\b/i\<close>,
  \<^verbatim>\<open>/\b(machine learning|neural network|transformer|llm)\b/i\<close>.
\<close>

definition domain_patterns :: "regexp list" where
  "domain_patterns =
    [RegExp (Cat [WordB, kw [''quantum'', ''genomics'', ''bioinformatics'', ''fpga'', ''verilog''],
                  WordB]) True,
     RegExp (Cat [WordB, kw [''machine learning'', ''neural network'', ''transformer'', ''llm''],
                  WordB]) True]"

text \<open>
  \<^verbatim>\<open>/\b(the docs|the documentation|the api|the code above)\b/i\<close>,
  \<^verbatim>\<open>/\b(as mentioned|as shown|see above|referenced)\b/i\<close>.
\<close>

definition reference_patterns :: "regexp list" where
  "reference_patterns =
    [RegExp (Cat [WordB, kw [''the docs'', ''the documentation'', ''the api'',
                            ''the code above''], WordB]) True,
     RegExp (Cat [WordB, kw [''as mentioned'', ''as shown'', ''see above'', ''referenced''],
                  WordB]) True]"

text \<open>
  \<^verbatim>\<open>/\b(don't|do not|avoid|without|never|shouldn't)\b/i\<close>, and the Chinese keywords
  U+4E0D U+8981, U+7981 U+6B62, U+907F U+514D as \<^verbatim>\<open>/\b(...)/i\<close>.
\<close>

definition negation_patterns :: "regexp list" where
  "negation_patterns =
    [RegExp (Cat [WordB, kw [''don't'', ''do not'', ''avoid'', ''without'', ''never'',
                            ''shouldn't''], WordB]) True,
     RegExp (Cat [WordB, Alt [Lit [0x4E0D, 0x8981], Lit [0x7981, 0x6B62],
                              Lit [0x907F, 0x514D]]]) True]"

definition PATTERNS :: "(string \<times> regexp list) list" where
  "PATTERNS =
    [(''reasoning'', reasoning_patterns),
     (''code'', code_patterns),
     (''simple'', simple_patterns),
     (''multiStep'', multiStep_patterns),
     (''technical'', technical_patterns),
     (''creative'', creative_patterns),
     (''constraints'', constraints_patterns),
     (''imperative'', imperative_patterns),
     (''outputFormat'', outputFormat_patterns),
     (''domain'', domain_patterns),
     (''reference'', reference_patterns),
     (''negation'', negation_patterns)]"

section \<open>Weights and tiers\<close>

text \<open>
  JavaScript numbers are modelled as real numbers: a decimal literal of the source is the
  rational it denotes and arithmetic is exact. Rounding to IEEE 754 doubles is outside the
  model.
\<close>

definition WEIGHTS :: "(string \<times> real) list" where
  "WEIGHTS =
    [(''reasoning'', 0.20),
     (''code'', 0.18),
     (''simple'', 0.10),
     (''multiStep'', 0.10),
     (''technical'', 0.10),
     (''tokenCount'', 0.08),
     (''creative'', 0.05),
     (''questionComplexity'', 0.04),
     (''constraints'', 0.04),
     (''imperative'', 0.04),
     (''outputFormat'', 0.03),
     (''domain'', 0.02),
     (''reference'', 0.01),
     (''negation'', 0.01)]"

datatype tier = SIMPLE | MEDIUM | COMPLEX | REASONING

text \<open>
  A tier-to-model object: a property that is absent reads as \<^verbatim>\<open>undefined\<close>, here
  \<open>None\<close>.
\<close>

type_synonym tier_models = "tier \<rightharpoonup> js_string"

definition DEFAULT_TIER_MODELS :: tier_models where
  "DEFAULT_TIER_MODELS =
    [SIMPLE \<mapsto> ascii ''gemini/gemini-2.0-flash'',
     MEDIUM \<mapsto> ascii ''deepseek/deepseek-chat'',
     COMPLEX \<mapsto> ascii ''anthropic/claude-sonnet-4'',
     REASONING \<mapsto> ascii ''deepseek/deepseek-reasoner'']"

section \<open>scoreDimensions\<close>

text \<open>
  \<^verbatim>\<open>prompt.split(/\s+/)\<close>: the pieces between the maximal runs of white space. The empty
  string gives one empty piece; white space at either end gives an empty piece there.
  (\<^verbatim>\<open>promptLower\<close> is computed and never read; it has no counterpart here.)
\<close>

function split_ws :: "js_string \<Rightarrow> js_string \<Rightarrow> js_string list" where
  "split_ws cur [] = [cur]"
| "split_ws cur (c # cs) =
     (if isWhiteSpace c then cur # split_ws [] (dropWhile isWhiteSpace cs)
      else split_ws (cur @ [c]) cs)"
  by pat_completeness auto
termination
  by (relation "measure (\<lambda>(cur, s). length s)")
     (auto simp: length_dropWhile_le less_Suc_eq_le)

definition split :: "js_string \<Rightarrow> js_string list" where
  "split prompt = split_ws [] prompt"

text \<open>The inner loop of \<^verbatim>\<open>scoreDimensions\<close> and of \<^verbatim>\<open>route\<close>: \<^verbatim>\<open>matches++\<close> per matching pattern.\<close>

definition count_matches :: "regexp list \<Rightarrow> js_string \<Rightarrow> nat" where
  "count_matches patterns prompt =
     fold (\<lambda>p matches. if test p prompt then matches + 1 else matches) patterns 0"

type_synonym scores = "(string \<times> real) list"

definition pattern_scores :: "js_string \<Rightarrow> scores" where
  "pattern_scores prompt =
     fold (\<lambda>(d, patterns) sc.
             AList.update d
               (min (real (count_matches patterns prompt) / real (length patterns)) 1.0) sc)
          PATTERNS []"

definition token_score :: "nat \<Rightarrow> real" where
  "token_score tokenCount =
     (if tokenCount < 50 then 0.2
      else if tokenCount > 500 then 0.9
      else 0.5 + (real tokenCount - 50) / 900)"

definition questionMarks :: "js_string \<Rightarrow> nat" where
  "questionMarks prompt = length (filter (\<lambda>c. c = of_char CHR ''?'') prompt)"

definition scoreDimensions :: "js_string \<Rightarrow> scores" where
  "scoreDimensions prompt =
     (let tokenCount = length (split prompt);
          sc = pattern_scores prompt;
          sc = AList.update ''tokenCount'' (token_score tokenCount) sc;
          sc = AList.update ''questionComplexity''
                 (min (real (questionMarks prompt) / 3) 1.0) sc
      in sc)"

section \<open>route\<close>

datatype decision_method = Rules | Weighted

record decision =
  tier :: tier
  model :: "js_string option"
  confidence :: real
  weightedScore :: "real option"
  "method" :: decision_method
  scores :: scores

record options =
  tierModels :: "tier_models option"

text \<open>\<^verbatim>\<open>scores[dim] || 0\<close>: a missing score and a score of zero both read as zero.\<close>

definition score_or_0 :: "scores \<Rightarrow> string \<Rightarrow> real" where
  "score_or_0 sc d = (case map_of sc d of None \<Rightarrow> 0 | Some v \<Rightarrow> v)"

definition weightedSum :: "scores \<Rightarrow> real" where
  "weightedSum sc = fold (\<lambda>(d, weight) acc. acc + score_or_0 sc d * weight) WEIGHTS 0"

definition select_tier :: "scores \<Rightarrow> real \<Rightarrow> nat \<Rightarrow> tier" where
  "select_tier sc ws reasoningMatches =
     (let hasStrongCode = (score_or_0 sc ''code'' > 0.3 \<or> score_or_0 sc ''technical'' > 0.3);
          hasStrongImperative =
            (score_or_0 sc ''imperative'' > 0.3
             \<and> (score_or_0 sc ''code'' > 0.1 \<or> score_or_0 sc ''technical'' > 0.1))
      in if ws < 0.20 \<and> \<not> hasStrongCode \<and> \<not> hasStrongImperative then SIMPLE
         else if score_or_0 sc ''reasoning'' > 0.5 \<or> reasoningMatches \<ge> 1 then REASONING
         else if ws < 0.40 \<and> \<not> hasStrongImperative then MEDIUM
         else COMPLEX)"

definition route :: "js_string \<Rightarrow> options \<Rightarrow> decision" where
  "route prompt opts =
     (let tm = (case tierModels opts of None \<Rightarrow> DEFAULT_TIER_MODELS | Some m \<Rightarrow> m);
          sc = scoreDimensions prompt;
          ws = weightedSum sc;
          conf = 1 / (1 + exp (- 10 * (ws - 0.5)));
          reasoningMatches = count_matches reasoning_patterns prompt
      in if reasoningMatches \<ge> 2
         then \<lparr> tier = REASONING, model = tm REASONING, confidence = 0.97,
                weightedScore = None, method = Rules, scores = sc \<rparr>
         else let t = select_tier sc ws reasoningMatches
              in \<lparr> tier = t, model = tm t, confidence = conf,
                   weightedScore = Some ws, method = Weighted, scores = sc \<rparr>)"

section \<open>Cost estimates\<close>

record costs =
  input :: real
  "output" :: real

definition MODEL_COSTS :: "(js_string \<times> costs) list" where
  "MODEL_COSTS =
    [(ascii ''gemini/gemini-2.0-flash'', \<lparr> input = 0.10, output = 0.40 \<rparr>),
     (ascii ''deepseek/deepseek-chat'', \<lparr> input = 0.14, output = 0.28 \<rparr>),
     (ascii ''anthropic/claude-sonnet-4'', \<lparr> input = 3.00, output = 15.00 \<rparr>),
     (ascii ''deepseek/deepseek-reasoner'', \<lparr> input = 0.55, output = 2.19 \<rparr>),
     (ascii ''openai/gpt-4o-mini'', \<lparr> input = 0.15, output = 0.60 \<rparr>),
     (ascii ''openai/gpt-4o'', \<lparr> input = 2.50, output = 10.00 \<rparr>),
     (ascii ''anthropic/claude-opus-4'', \<lparr> input = 15.00, output = 75.00 \<rparr>)]"

text \<open>
  \<^verbatim>\<open>MODEL_COSTS[model]\<close> is a property read of an ordinary object. An undefined model
  reads the key \<^verbatim>\<open>"undefined"\<close>. A key that names a member of \<^verbatim>\<open>Object.prototype\<close>
  finds that member, which is truthy and has no \<^verbatim>\<open>input\<close> or \<^verbatim>\<open>output\<close>, so the
  cost is \<^verbatim>\<open>NaN\<close>; a cost is therefore an optional real, \<open>None\<close> for \<^verbatim>\<open>NaN\<close>.
\<close>

definition property_key :: "js_string option \<Rightarrow> js_string" where
  "property_key k = (case k of None \<Rightarrow> ascii ''undefined'' | Some s \<Rightarrow> s)"

definition inherited_property :: "js_string \<Rightarrow> bool" where
  "inherited_property k =
     (k \<in> set (map ascii
        [''constructor'', ''__defineGetter__'', ''__defineSetter__'', ''hasOwnProperty'',
         ''__lookupGetter__'', ''__lookupSetter__'', ''isPrototypeOf'',
         ''propertyIsEnumerable'', ''toString'', ''valueOf'', ''__proto__'',
         ''toLocaleString'']))"

definition estimateCost :: "js_string option \<Rightarrow> real \<Rightarrow> real option \<Rightarrow> real option" where
  "estimateCost model_id inputTokens outputTokens_opt =
     (let outputTokens = (case outputTokens_opt of None \<Rightarrow> 500 | Some n \<Rightarrow> n);
          key = property_key model_id
      in if inherited_property key then None
         else let c = (case map_of MODEL_COSTS key of
                         None \<Rightarrow> \<lparr> input = 1.00, output = 5.00 \<rparr> | Some c \<Rightarrow> c)
              in Some (inputTokens / 1000000 * input c + outputTokens / 1000000 * output c))"

text \<open>\<^verbatim>\<open>baselineCost > 0\<close> is false for \<^verbatim>\<open>NaN\<close>; a \<^verbatim>\<open>NaN\<close> routed cost makes the quotient \<^verbatim>\<open>NaN\<close>.\<close>

definition estimateSavings ::
  "js_string option \<Rightarrow> js_string option \<Rightarrow> real option \<Rightarrow> real option \<Rightarrow> real option" where
  "estimateSavings routedModel baselineModel_opt inputTokens_opt outputTokens_opt =
     (let baselineModel =
            (case baselineModel_opt of None \<Rightarrow> ascii ''anthropic/claude-opus-4'' | Some m \<Rightarrow> m);
          inputTokens = (case inputTokens_opt of None \<Rightarrow> 1000 | Some n \<Rightarrow> n);
          outputTokens = (case outputTokens_opt of None \<Rightarrow> 500 | Some n \<Rightarrow> n);
          routedCost = estimateCost routedModel inputTokens (Some outputTokens);
          baselineCost = estimateCost (Some baselineModel) inputTokens (Some outputTokens)
      in case baselineCost of
           None \<Rightarrow> Some 0
         | Some b \<Rightarrow>
             if b > 0 then (case routedCost of None \<Rightarrow> None | Some r \<Rightarrow> Some ((b - r) / b))
             else Some 0)"

section \<open>JSON values, JSON.parse and JSON.stringify\<close>

text \<open>
  A number is kept as the decimal it was written as: a sign, the significant digits
  (no leading or trailing zero; none at all for zero) and the power of ten of the last
  digit. This is exact where a double holds the literal exactly (up to 15 significant
  digits, within range); rounding of longer literals is outside the model. An object is
  its list of own properties in enumeration order: array-index keys in ascending order
  first, then the other keys in order of creation.
\<close>

datatype json =
    JNull
  | JBool bool
  | JNumber bool "nat list" int
  | JString js_string
  | JArray "json list"
  | JObject "(js_string \<times> json) list"

text \<open>
  The exceptions the request path can raise. The wording of an engine's messages is not
  reproduced: a message is a text chosen by the model.
\<close>

datatype exn = SyntaxError js_string | TypeError js_string

fun message :: "exn \<Rightarrow> js_string" where
  "message (SyntaxError m) = m"
| "message (TypeError m) = m"

datatype token =
    LBrace | RBrace | LBracket | RBracket | Colon | Comma
  | TString js_string
  | TNumber bool "nat list" int
  | TTrue | TFalse | TNull

definition hex_value :: "code_unit \<Rightarrow> nat option" where
  "hex_value c =
     (if isDigit c then Some (unat c - 48)
      else if 0x61 \<le> c \<and> c \<le> 0x66 then Some (unat c - 87)
      else if 0x41 \<le> c \<and> c \<le> 0x46 then Some (unat c - 55)
      else None)"

text \<open>The character after a backslash: quote, backslash, slash, and \<^verbatim>\<open>b f n r t\<close>.\<close>

definition simple_escape :: "code_unit \<Rightarrow> code_unit option" where
  "simple_escape e =
     (if e = 0x22 \<or> e = 0x5C \<or> e = 0x2F then Some e
      else if e = of_char CHR ''b'' then Some 0x08
      else if e = of_char CHR ''f'' then Some 0x0C
      else if e = of_char CHR ''n'' then Some 0x0A
      else if e = of_char CHR ''r'' then Some 0x0D
      else if e = of_char CHR ''t'' then Some 0x09
      else None)"

text \<open>
  \<open>scan_string acc cs\<close> reads a string body up to its closing quote and returns the
  decoded string and the text after the quote.
\<close>

fun scan_string :: "js_string \<Rightarrow> js_string \<Rightarrow> (js_string \<times> js_string) option" where
  "scan_string acc [] = None"
| "scan_string acc (c # cs) =
     (if c = 0x22 then Some (acc, cs)
      else if c = 0x5C then
        (case cs of
           [] \<Rightarrow> None
         | e # cs' \<Rightarrow>
             if e = of_char CHR ''u'' then
               (case cs' of
                  h1 # h2 # h3 # h4 # cs'' \<Rightarrow>
                    (case (hex_value h1, hex_value h2, hex_value h3, hex_value h4) of
                       (Some w, Some x, Some y, Some z) \<Rightarrow>
                         scan_string (acc @ [of_nat (((w * 16 + x) * 16 + y) * 16 + z)]) cs''
                     | _ \<Rightarrow> None)
                | _ \<Rightarrow> None)
             else (case simple_escape e of
                     None \<Rightarrow> None
                   | Some d \<Rightarrow> scan_string (acc @ [d]) cs'))
      else if c < 0x20 then None
      else scan_string (acc @ [c]) cs)"

definition digit_value :: "code_unit \<Rightarrow> nat" where
  "digit_value c = unat c - 48"

definition int_of_digits :: "nat list \<Rightarrow> int" where
  "int_of_digits ds = foldl (\<lambda>n d. 10 * n + int d) 0 ds"

text \<open>The digits of a literal and its exponent, without leading and trailing zeros.\<close>

definition normalise :: "nat list \<Rightarrow> int \<Rightarrow> nat list \<times> int" where
  "normalise ds e =
     (let ds1 = dropWhile (\<lambda>d. d = 0) ds;
          tz = length (takeWhile (\<lambda>d. d = 0) (rev ds1));
          ds2 = take (length ds1 - tz) ds1
      in if ds2 = [] then ([], 0) else (ds2, e + int tz))"

text \<open>
  The fraction and the exponent of a number literal: each is optional, and each needs at
  least one digit when it is there.
\<close>

definition scan_fraction :: "js_string \<Rightarrow> (js_string \<times> js_string) option" where
  "scan_fraction cs =
     (case cs of
        [] \<Rightarrow> Some ([], [])
      | c # r \<Rightarrow>
          if c = of_char CHR ''.'' then
            (if takeWhile isDigit r = [] then None
             else Some (takeWhile isDigit r, dropWhile isDigit r))
          else Some ([], cs))"

definition scan_exponent :: "js_string \<Rightarrow> (int \<times> js_string) option" where
  "scan_exponent cs =
     (case cs of
        [] \<Rightarrow> Some (0, [])
      | c # r \<Rightarrow>
          if c = of_char CHR ''e'' \<or> c = of_char CHR ''E'' then
            (let negative = (case r of [] \<Rightarrow> False | s # _ \<Rightarrow> s = of_char CHR ''-'');
                 signed = (case r of [] \<Rightarrow> False
                           | s # _ \<Rightarrow> s = of_char CHR ''-'' \<or> s = of_char CHR ''+'');
                 r1 = (if signed then tl r else r);
                 v = int_of_digits (map digit_value (takeWhile isDigit r1))
             in if takeWhile isDigit r1 = [] then None
                else Some (if negative then - v else v, dropWhile isDigit r1))
          else Some (0, cs))"

definition scan_number :: "js_string \<Rightarrow> (token \<times> js_string) option" where
  "scan_number cs =
     (let negative = (case cs of [] \<Rightarrow> False | c # _ \<Rightarrow> c = of_char CHR ''-'');
          cs1 = (if negative then tl cs else cs);
          ip = takeWhile isDigit cs1
      in if ip = [] \<or> (length ip > 1 \<and> hd ip = 0x30) then None
         else case scan_fraction (dropWhile isDigit cs1) of
                None \<Rightarrow> None
              | Some (fp, cs2) \<Rightarrow>
                  (case scan_exponent cs2 of
                     None \<Rightarrow> None
                   | Some (ex, cs3) \<Rightarrow>
                       (case normalise (map digit_value (ip @ fp)) (ex - int (length fp)) of
                          (ds, e) \<Rightarrow> Some (TNumber negative ds e, cs3))))"

fun starts_with :: "js_string \<Rightarrow> js_string \<Rightarrow> bool" where
  "starts_with [] s = True"
| "starts_with (a # as) [] = False"
| "starts_with (a # as) (c # cs) = (a = c \<and> starts_with as cs)"

text \<open>
  The tokens of a JSON text. White space between tokens is space, tab, line feed and
  carriage return. After a string or a number the scanner returns the text that remains,
  a suffix of its input; \<open>lex\<close> resumes there, written as a \<open>drop\<close> of the consumed
  length.
\<close>

fun lex :: "js_string \<Rightarrow> token list option" where
  "lex [] = Some []"
| "lex (c # cs) =
     (if c = 0x20 \<or> c = 0x09 \<or> c = 0x0A \<or> c = 0x0D then lex cs
      else if c = of_char CHR ''{'' then map_option (Cons LBrace) (lex cs)
      else if c = of_char CHR ''}'' then map_option (Cons RBrace) (lex cs)
      else if c = of_char CHR ''['' then map_option (Cons LBracket) (lex cs)
      else if c = of_char CHR '']'' then map_option (Cons RBracket) (lex cs)
      else if c = of_char CHR '':'' then map_option (Cons Colon) (lex cs)
      else if c = of_char CHR '','' then map_option (Cons Comma) (lex cs)
      else if c = 0x22 then
        (case scan_string [] cs of
           None \<Rightarrow> None
         | Some (str, rest) \<Rightarrow>
             map_option (Cons (TString str)) (lex (drop (length cs - length rest) cs)))
      else if c = of_char CHR ''-'' \<or> isDigit c then
        (case scan_number (c # cs) of
           None \<Rightarrow> None
         | Some (t, rest) \<Rightarrow> map_option (Cons t) (lex (drop (length cs - length rest) cs)))
      else if starts_with (ascii ''true'') (c # cs) then map_option (Cons TTrue) (lex (drop 3 cs))
      else if starts_with (ascii ''false'') (c # cs) then map_option (Cons TFalse) (lex (drop 4 cs))
      else if starts_with (ascii ''null'') (c # cs) then map_option (Cons TNull) (lex (drop 3 cs))
      else None)"

text \<open>
  Creating a property: an existing key keeps its place and takes the new value; a new
  array-index key (the canonical decimal of an integer below \<open>2^32 - 1\<close>) goes among the
  index keys in ascending order; any other new key goes last.
\<close>

definition array_index :: "js_string \<Rightarrow> int option" where
  "array_index k =
     (if k = [] \<or> \<not> list_all isDigit k \<or> (length k > 1 \<and> hd k = 0x30) \<or> length k > 10
      then None
      else let n = int_of_digits (map digit_value k)
           in if n \<le> 4294967294 then Some n else None)"

fun insert_index :: "int \<Rightarrow> js_string \<Rightarrow> json \<Rightarrow> (js_string \<times> json) list \<Rightarrow> (js_string \<times> json) list" where
  "insert_index n k v [] = [(k, v)]"
| "insert_index n k v ((k', v') # ps) =
     (case array_index k' of
        None \<Rightarrow> (k, v) # (k', v') # ps
      | Some m \<Rightarrow> if n < m then (k, v) # (k', v') # ps else (k', v') # insert_index n k v ps)"

definition set_property :: "js_string \<Rightarrow> json \<Rightarrow> (js_string \<times> json) list \<Rightarrow> (js_string \<times> json) list" where
  "set_property k v ps =
     (if k \<in> fst ` set ps then AList.update k v ps
      else case array_index k of
             None \<Rightarrow> ps @ [(k, v)]
           | Some n \<Rightarrow> insert_index n k v ps)"

text \<open>
  The parser reads the tokens from left to right with a stack of the containers that are
  open. A frame says what has been read of its container and hence what may come next.
\<close>

datatype frame =
    ArrStart
  | ArrElems "json list"
  | ArrComma "json list"
  | ObjStart
  | ObjKey "(js_string \<times> json) list" js_string
  | ObjColon "(js_string \<times> json) list" js_string
  | ObjElems "(js_string \<times> json) list"
  | ObjComma "(js_string \<times> json) list"

datatype parser = Parsing "frame list" | Done json | Failed

text \<open>A complete value goes to the innermost open container, or is the result.\<close>

fun deliver :: "json \<Rightarrow> frame list \<Rightarrow> parser" where
  "deliver v [] = Done v"
| "deliver v (ArrStart # st) = Parsing (ArrElems [v] # st)"
| "deliver v (ArrComma xs # st) = Parsing (ArrElems (xs @ [v]) # st)"
| "deliver v (ObjColon ps k # st) = Parsing (ObjElems (set_property k v ps) # st)"
| "deliver v (_ # st) = Failed"

fun wants_value :: "frame list \<Rightarrow> bool" where
  "wants_value [] = True"
| "wants_value (ArrStart # st) = True"
| "wants_value (ArrComma xs # st) = True"
| "wants_value (ObjColon ps k # st) = True"
| "wants_value (_ # st) = False"

fun parse_step :: "token \<Rightarrow> frame list \<Rightarrow> parser" where
  "parse_step TNull st = deliver JNull st"
| "parse_step TTrue st = deliver (JBool True) st"
| "parse_step TFalse st = deliver (JBool False) st"
| "parse_step (TNumber neg ds e) st = deliver (JNumber neg ds e) st"
| "parse_step (TString s) (ObjStart # st) = Parsing (ObjKey [] s # st)"
| "parse_step (TString s) (ObjComma ps # st) = Parsing (ObjKey ps s # st)"
| "parse_step (TString s) st = deliver (JString s) st"
| "parse_step LBracket st = (if wants_value st then Parsing (ArrStart # st) else Failed)"
| "parse_step LBrace st = (if wants_value st then Parsing (ObjStart # st) else Failed)"
| "parse_step RBracket (ArrStart # st) = deliver (JArray []) st"
| "parse_step RBracket (ArrElems xs # st) = deliver (JArray xs) st"
| "parse_step RBracket st = Failed"
| "parse_step RBrace (ObjStart # st) = deliver (JObject []) st"
| "parse_step RBrace (ObjElems ps # st) = deliver (JObject ps) st"
| "parse_step RBrace st = Failed"
| "parse_step Comma (ArrElems xs # st) = Parsing (ArrComma xs # st)"
| "parse_step Comma (ObjElems ps # st) = Parsing (ObjComma ps # st)"
| "parse_step Comma st = Failed"
| "parse_step Colon (ObjKey ps k # st) = Parsing (ObjColon ps k # st)"
| "parse_step Colon st = Failed"

fun parse_tokens :: "parser \<Rightarrow> token list \<Rightarrow> json option" where
  "parse_tokens (Done v) [] = Some v"
| "parse_tokens (Parsing st) (t # ts) = parse_tokens (parse_step t st) ts"
| "parse_tokens _ _ = None"

definition JSON_parse :: "js_string \<Rightarrow> exn + json" where
  "JSON_parse text =
     (case lex text of
        None \<Rightarrow> Inl (SyntaxError (ascii ''Unexpected token in JSON''))
      | Some ts \<Rightarrow>
          (case parse_tokens (Parsing []) ts of
             None \<Rightarrow> Inl (SyntaxError (ascii ''Unexpected token in JSON''))
           | Some v \<Rightarrow> Inr v))"

text \<open>
  \<^verbatim>\<open>JSON.stringify\<close> of a parsed value. A string is quoted with the short escapes, with
  \<^verbatim>\<open>\u00xx\<close> for the other control characters and with \<^verbatim>\<open>\udxxx\<close> for a surrogate that
  has no partner.
\<close>

definition hex_digit :: "nat \<Rightarrow> code_unit" where
  "hex_digit d = (if d < 10 then of_nat (48 + d) else of_nat (87 + d))"

definition unicode_escape :: "code_unit \<Rightarrow> js_string" where
  "unicode_escape c =
     [0x5C, of_char CHR ''u'', hex_digit (unat c div 4096), hex_digit (unat c div 256 mod 16),
      hex_digit (unat c div 16 mod 16), hex_digit (unat c mod 16)]"

definition quote_unit :: "code_unit \<Rightarrow> js_string" where
  "quote_unit c =
     (if c = 0x08 then [0x5C, of_char CHR ''b'']
      else if c = 0x09 then [0x5C, of_char CHR ''t'']
      else if c = 0x0A then [0x5C, of_char CHR ''n'']
      else if c = 0x0C then [0x5C, of_char CHR ''f'']
      else if c = 0x0D then [0x5C, of_char CHR ''r'']
      else if c = 0x22 then [0x5C, 0x22]
      else if c = 0x5C then [0x5C, 0x5C]
      else if c < 0x20 then unicode_escape c
      else [c])"

definition is_high :: "code_unit \<Rightarrow> bool" where
  "is_high c = (0xD800 \<le> c \<and> c \<le> 0xDBFF)"

definition is_low :: "code_unit \<Rightarrow> bool" where
  "is_low c = (0xDC00 \<le> c \<and> c \<le> 0xDFFF)"

fun quote_units :: "js_string \<Rightarrow> js_string" where
  "quote_units [] = []"
| "quote_units [c] = (if is_high c \<or> is_low c then unicode_escape c else quote_unit c)"
| "quote_units (c # d # cs) =
     (if is_high c \<and> is_low d then c # d # quote_units cs
      else if is_high c \<or> is_low c then unicode_escape c @ quote_units (d # cs)
      else quote_unit c @ quote_units (d # cs))"

definition QuoteJSONString :: "js_string \<Rightarrow> js_string" where
  "QuoteJSONString s = 0x22 # quote_units s @ [0x22]"

definition digit_char :: "nat \<Rightarrow> code_unit" where
  "digit_char d = of_nat (48 + d)"

fun nat_digits :: "nat \<Rightarrow> nat list" where
  "nat_digits n = (if n < 10 then [n] else nat_digits (n div 10) @ [n mod 10])"

text \<open>
  Number to string: with \<open>k\<close> digits and the decimal point after the \<open>n\<close>-th digit, the
  plain notations are used for \<open>-6 < n \<le> 21\<close> and the exponent notation otherwise.
\<close>

definition number_to_string :: "bool \<Rightarrow> nat list \<Rightarrow> int \<Rightarrow> js_string" where
  "number_to_string negative ds e =
     (if ds = [] then ascii ''0''
      else
        let k = int (length ds);
            n = k + e;
            digits = map digit_char ds;
            text =
              (if k \<le> n \<and> n \<le> 21 then digits @ replicate (nat (n - k)) 0x30
               else if 0 < n \<and> n \<le> 21 then
                 take (nat n) digits @ [of_char CHR ''.''] @ drop (nat n) digits
               else if - 6 < n \<and> n \<le> 0 then
                 [0x30, of_char CHR ''.''] @ replicate (nat (- n)) 0x30 @ digits
               else
                 (if k = 1 then digits else hd digits # of_char CHR ''.'' # tl digits)
                 @ [of_char CHR ''e'', if n - 1 < 0 then of_char CHR ''-'' else of_char CHR ''+'']
                 @ map digit_char (nat_digits (nat \<bar>n - 1\<bar>)))
        in (if negative then [of_char CHR ''-''] else []) @ text)"

fun join :: "js_string \<Rightarrow> js_string list \<Rightarrow> js_string" where
  "join sep [] = []"
| "join sep [x] = x"
| "join sep (x # y # ys) = x @ sep @ join sep (y # ys)"

fun JSON_stringify :: "json \<Rightarrow> js_string" where
  "JSON_stringify JNull = ascii ''null''"
| "JSON_stringify (JBool b) = (if b then ascii ''true'' else ascii ''false'')"
| "JSON_stringify (JNumber negative ds e) = number_to_string negative ds e"
| "JSON_stringify (JString s) = QuoteJSONString s"
| "JSON_stringify (JArray xs) =
     of_char CHR ''['' # join (ascii '','') (map JSON_stringify xs) @ [of_char CHR '']'']"
| "JSON_stringify (JObject ps) =
     of_char CHR ''{''
     # join (ascii '','')
         (map (\<lambda>(k, v). QuoteJSONString k @ of_char CHR '':'' # JSON_stringify v) ps)
     @ [of_char CHR ''}'']"

section \<open>The proxy\<close>

text \<open>
  A request as the handler reads it: the method, the URL, and the body as the string the
  \<^verbatim>\<open>data\<close> events accumulate (the decoded bytes). Headers take no part in what is
  proved below and are left out.
\<close>

record request =
  req_method :: js_string
  req_url :: js_string
  req_body :: js_string

text \<open>
  The options of \<^verbatim>\<open>startProxy\<close> that the request handler uses: the tier map, if one is
  given, and whether the hooks \<^verbatim>\<open>onRouted\<close> and \<^verbatim>\<open>onError\<close> are given.
\<close>

record proxy_options =
  proxy_tierModels :: "tier_models option"
  onRouted :: bool
  onError :: bool

record routed_info =
  originalModel :: json
  routedModel :: "js_string option"
  routed_tier :: tier
  routed_confidence :: real
  savings :: "real option"
  promptPreview :: js_string

text \<open>
  What the handler does with a request: answer it itself, stream it through to the
  upstream (\<^verbatim>\<open>proxyRequest\<close>), or send the upstream a body of its own
  (\<^verbatim>\<open>proxyRequestWithBody\<close>). \<open>Unmodelled\<close> marks the requests whose treatment depends
  on conversions of JavaScript that are not modelled.
\<close>

datatype action =
    Respond nat js_string
  | Pipe js_string
  | Send js_string
  | Unmodelled

record handled =
  action :: action
  routing :: "decision option"
  routed :: "routed_info option"
  errored :: "exn option"

text \<open>
  Reading \<^verbatim>\<open>.model\<close>, \<^verbatim>\<open>.messages\<close> or \<^verbatim>\<open>.content\<close> of a parsed value: \<^verbatim>\<open>null\<close>
  throws, an object gives its own property, and every other value gives
  \<^verbatim>\<open>undefined\<close> (no prototype defines these names).
\<close>

definition member :: "json \<Rightarrow> string \<Rightarrow> exn + json option" where
  "member v name =
     (case v of
        JNull \<Rightarrow> Inl (TypeError (ascii ''Cannot read properties of null''))
      | JObject ps \<Rightarrow> Inr (map_of ps (ascii name))
      | _ \<Rightarrow> Inr None)"

definition isAutoRoute :: "json option \<Rightarrow> bool" where
  "isAutoRoute original =
     (original = Some (JString (ascii ''auto''))
      \<or> original = Some (JString (ascii ''litellm/auto''))
      \<or> original = Some (JString (ascii ''litellm-clawrouter/auto'')))"

text \<open>
  \<^verbatim>\<open>payload.messages?.length > 0\<close> and, when it holds,
  \<^verbatim>\<open>payload.messages[payload.messages.length - 1]\<close>. A missing or \<^verbatim>\<open>null\<close> value, a
  number and a boolean have no positive length; an array and a string have their own. An
  object is asked for its \<^verbatim>\<open>length\<close> property: without one the test fails, with one the
  comparison converts an arbitrary value to a number, which is not modelled.
\<close>

datatype last_message = NoMessages | LastMessage json | NotModelled

definition lastMessage_of :: "json option \<Rightarrow> last_message" where
  "lastMessage_of messages =
     (case messages of
        None \<Rightarrow> NoMessages
      | Some (JArray xs) \<Rightarrow> if length xs > 0 then LastMessage (last xs) else NoMessages
      | Some (JString s) \<Rightarrow> if length s > 0 then LastMessage (JString [last s]) else NoMessages
      | Some (JObject ps) \<Rightarrow>
          if map_of ps (ascii ''length'') = None then NoMessages else NotModelled
      | Some _ \<Rightarrow> NoMessages)"

text \<open>
  \<^verbatim>\<open>payload.model = decision.model\<close>. The payload has a \<^verbatim>\<open>model\<close> property here. An
  undefined model leaves a property that \<^verbatim>\<open>JSON.stringify\<close> skips, so it is dropped.
\<close>

definition assign_model :: "json \<Rightarrow> js_string option \<Rightarrow> json" where
  "assign_model payload m =
     (case payload of
        JObject ps \<Rightarrow>
          (case m of
             None \<Rightarrow> JObject (AList.delete (ascii ''model'') ps)
           | Some s \<Rightarrow> JObject (AList.update (ascii ''model'') (JString s) ps))
      | _ \<Rightarrow> payload)"

text \<open>
  The prompt of the last message: its \<^verbatim>\<open>content\<close> if that is a string, else
  \<^verbatim>\<open>JSON.stringify(content)\<close>. For a missing content that is \<^verbatim>\<open>undefined\<close>, and
  \<^verbatim>\<open>route\<close> throws at \<^verbatim>\<open>prompt.toLowerCase()\<close>.
\<close>

definition prompt_of :: "json \<Rightarrow> exn + js_string" where
  "prompt_of lastMessage =
     (case member lastMessage ''content'' of
        Inl e \<Rightarrow> Inl e
      | Inr None \<Rightarrow> Inl (TypeError (ascii ''Cannot read properties of undefined''))
      | Inr (Some (JString s)) \<Rightarrow> Inr s
      | Inr (Some v) \<Rightarrow> Inr (JSON_stringify v))"

text \<open>The \<^verbatim>\<open>catch\<close> block: call \<^verbatim>\<open>onError\<close> if given, answer 500.\<close>

definition caught :: "proxy_options \<Rightarrow> exn \<Rightarrow> handled" where
  "caught opts err =
     \<lparr> action = Respond 500 (JSON_stringify (JObject [(ascii ''error'', JString (message err))])),
       routing = None, routed = None,
       errored = (if onError opts then Some err else None) \<rparr>"

text \<open>
  The \<^verbatim>\<open>end\<close> listener of a POST to a completions URL. The hooks are taken to return
  normally; the line written to the console is left out.
\<close>

definition on_end :: "proxy_options \<Rightarrow> js_string \<Rightarrow> handled" where
  "on_end opts body =
     (case JSON_parse body of
        Inl err \<Rightarrow> caught opts err
      | Inr payload \<Rightarrow>
          (case member payload ''model'' of
             Inl err \<Rightarrow> caught opts err
           | Inr original \<Rightarrow>
               let forward = \<lparr> action = Send (JSON_stringify payload), routing = None,
                               routed = None, errored = None \<rparr>
               in if \<not> isAutoRoute original then forward
                  else case lastMessage_of (projr (member payload ''messages'')) of
                         NoMessages \<Rightarrow> forward
                       | NotModelled \<Rightarrow>
                           \<lparr> action = Unmodelled, routing = None, routed = None, errored = None \<rparr>
                       | LastMessage lastMessage \<Rightarrow>
                           (case prompt_of lastMessage of
                              Inl err \<Rightarrow> caught opts err
                            | Inr prompt \<Rightarrow>
                                let d = route prompt \<lparr> tierModels = Some
                                          (case proxy_tierModels opts of
                                             None \<Rightarrow> DEFAULT_TIER_MODELS | Some m \<Rightarrow> m) \<rparr>;
                                    payload' = assign_model payload (model d);
                                    sv = estimateSavings (model d) None None None
                                in \<lparr> action = Send (JSON_stringify payload'),
                                     routing = Some d,
                                     routed =
                                       (if onRouted opts
                                        then Some \<lparr> originalModel = the original,
                                                    routedModel = model d,
                                                    routed_tier = tier d,
                                                    routed_confidence = confidence d,
                                                    savings = sv,
                                                    promptPreview = take 100 prompt \<rparr>
                                        else None),
                                     errored = None \<rparr>)))"

fun "includes" :: "js_string \<Rightarrow> js_string \<Rightarrow> bool" where
  "includes [] sub = (sub = [])"
| "includes (c # cs) sub = (starts_with sub (c # cs) \<or> includes cs sub)"

text \<open>The request listener of \<^verbatim>\<open>startProxy\<close>.\<close>

definition handle_request :: "proxy_options \<Rightarrow> request \<Rightarrow> handled" where
  "handle_request opts req =
     (if req_url req = ascii ''/health'' then
        \<lparr> action = Respond 200
            (JSON_stringify (JObject [(ascii ''status'', JString (ascii ''ok'')),
                                      (ascii ''version'', JString (ascii ''1.0.0''))])),
          routing = None, routed = None, errored = None \<rparr>
      else if req_method req \<noteq> ascii ''POST''
              \<or> \<not> includes (req_url req) (ascii ''/chat/completions'') then
        \<lparr> action = Pipe (req_body req), routing = None, routed = None, errored = None \<rparr>
      else on_end opts (req_body req))"

text \<open>
  The upstream exchange either fails with an \<^verbatim>\<open>error\<close> event before any response, or
  yields a response that is piped to the client. Both \<^verbatim>\<open>proxyRequest\<close> and
  \<^verbatim>\<open>proxyRequestWithBody\<close> answer the failure with 502.
\<close>

datatype upstream = ConnectionError js_string | Reply nat js_string

definition upstream_response :: "upstream \<Rightarrow> nat \<times> js_string" where
  "upstream_response up =
     (case up of
        ConnectionError msg \<Rightarrow>
          (502, JSON_stringify (JObject [(ascii ''error'', JString (ascii ''Bad gateway'')),
                                         (ascii ''details'', JString msg)]))
      | Reply st b \<Rightarrow> (st, b))"

text \<open>What the client receives, given how the upstream exchange goes (if there is one).\<close>

definition client_response :: "proxy_options \<Rightarrow> request \<Rightarrow> upstream \<Rightarrow> (nat \<times> js_string) option" where
  "client_response opts req up =
     (case action (handle_request opts req) of
        Respond st b \<Rightarrow> Some (st, b)
      | Pipe b \<Rightarrow> Some (upstream_response up)
      | Send b \<Rightarrow> Some (upstream_response up)
      | Unmodelled \<Rightarrow> None)"

section \<open>Definitions for the statements\<close>

text \<open>The tier map a call of \<^verbatim>\<open>route\<close> reads: the caller's, or the default one.\<close>

definition tier_models_used :: "options \<Rightarrow> tier_models" where
  "tier_models_used opts = (case tierModels opts of None \<Rightarrow> DEFAULT_TIER_MODELS | Some m \<Rightarrow> m)"





section \<open>The fuel of a repetition\<close>

text \<open>
  A repetition started with the length of the remaining text as its fuel finds every
  chain of iterations: more fuel gives the same positions.
\<close>

lemma repeat_fuel:
  "length (snd pos) \<le> n \<Longrightarrow> repeat f n pos = repeat f (length (snd pos)) pos"
proof (induction n arbitrary: pos rule: less_induct)
  case (less n)
  show ?case
  proof (cases n)
    case 0
    with less.prems show ?thesis by simp
  next
    case n: (Suc m)
    show ?thesis
    proof (cases "length (snd pos)")
      case 0
      then show ?thesis by (simp add: n)
    next
      case len: (Suc k)
      let ?Q = "filter (\<lambda>q. length (snd q) < length (snd pos)) (f pos)"
      have km: "k \<le> m" using less.prems len n by simp
      have same: "repeat f m q = repeat f k q" if "q \<in> set ?Q" for q
      proof -
        have lq: "length (snd q) \<le> k" using that len by simp
        have "repeat f m q = repeat f (length (snd q)) q"
          using less.IH [of m q] lq km n by simp
        moreover have "repeat f k q = repeat f (length (snd q)) q"
          using less.IH [of k q] lq km n by simp
        ultimately show ?thesis by simp
      qed
      have "map (repeat f m) ?Q = map (repeat f k) ?Q"
        by (rule map_cong [OF refl]) (rule same)
      then have "repeat f (Suc m) pos = repeat f (Suc k) pos"
        by (simp only: repeat.simps)
      then show ?thesis by (simp only: n len)
    qed
  qed
qed

section \<open>The scorer\<close>

lemma count_matches_filter:
  "count_matches ps s = length (filter (\<lambda>p. test p s) ps)"
proof -
  have "fold (\<lambda>p m. if test p s then m + 1 else m) ps k = k + length (filter (\<lambda>p. test p s) ps)" for k
    by (induction ps arbitrary: k) auto
  then show ?thesis by (simp add: count_matches_def)
qed

lemma count_matches_le: "count_matches ps s \<le> length ps"
  by (simp add: count_matches_filter)

lemma pattern_scores_eq:
  "pattern_scores p =
     map (\<lambda>(d, ps). (d, min (real (count_matches ps p) / real (length ps)) 1)) PATTERNS"
  by (simp add: pattern_scores_def PATTERNS_def)

lemma scoreDimensions_eq:
  "scoreDimensions p =
     pattern_scores p @
     [(''tokenCount'', token_score (length (split p))),
      (''questionComplexity'', min (real (questionMarks p) / 3) 1)]"
  by (simp add: scoreDimensions_def pattern_scores_eq PATTERNS_def Let_def)

lemma scoreDimensions_keys:
  "map fst (scoreDimensions p) =
     [''reasoning'', ''code'', ''simple'', ''multiStep'', ''technical'', ''creative'',
      ''constraints'', ''imperative'', ''outputFormat'', ''domain'', ''reference'',
      ''negation'', ''tokenCount'', ''questionComplexity'']"
  by (simp add: scoreDimensions_eq pattern_scores_eq PATTERNS_def)

lemma token_score_bounds: "0 \<le> token_score n \<and> token_score n \<le> 1"
  by (simp add: token_score_def field_simps)

lemma pattern_score_bounds:
  "(d, v) \<in> set (pattern_scores p) \<Longrightarrow> 0 \<le> v \<and> v \<le> 1"
  by (auto simp: pattern_scores_eq)



lemma weights_keys:
  "map fst WEIGHTS =
     [''reasoning'', ''code'', ''simple'', ''multiStep'', ''technical'', ''tokenCount'',
      ''creative'', ''questionComplexity'', ''constraints'', ''imperative'', ''outputFormat'',
      ''domain'', ''reference'', ''negation'']"
  by (simp add: WEIGHTS_def)

lemma keys_same: "set (map fst (scoreDimensions p)) = set (map fst WEIGHTS)"
  unfolding scoreDimensions_keys weights_keys
  by (simp only: set_simps) (simp only: insert_commute insert_absorb2 ac_simps)




subsection \<open>The weights summed with rounding\<close>







subsection \<open>Tokens and the split\<close>







subsection \<open>Evaluating the patterns on concrete prompts\<close>

lemmas regex_eval =
  test_def kw_def ch_def ascii_def same_char_def canonicalize_def
  word_boundary_def isWordChar_def isDigit_def char_at_def in_class_def isWhiteSpace_def
  isLineTerminator_def

lemmas pattern_defs =
  reasoning_patterns_def code_patterns_def simple_patterns_def multiStep_patterns_def
  technical_patterns_def creative_patterns_def constraints_patterns_def
  imperative_patterns_def outputFormat_patterns_def domain_patterns_def
  reference_patterns_def negation_patterns_def

lemma patterns_reasoning: "map_of PATTERNS ''reasoning'' = Some reasoning_patterns"
  by (simp add: PATTERNS_def)

lemma pattern_lengths:
  "length reasoning_patterns = 5" "length code_patterns = 7" "length simple_patterns = 4"
  "length multiStep_patterns = 3" "length technical_patterns = 4"
  "length creative_patterns = 2" "length constraints_patterns = 3"
  "length imperative_patterns = 2" "length outputFormat_patterns = 2"
  "length domain_patterns = 2" "length reference_patterns = 2"
  "length negation_patterns = 2"
  by (simp_all add: pattern_defs)

text \<open>
  Two prompts of the repository's tests: the proof request has two reasoning markers, the
  sum has one marker of the dimension \<^verbatim>\<open>simple\<close> and nothing else.
\<close>

lemma reasoning_two:
  "length (filter (\<lambda>p. test p (ascii ''Prove that sqrt(2) is irrational step by step''))
             reasoning_patterns) = 2"
proof -
  have "count_matches reasoning_patterns
          (ascii ''Prove that sqrt(2) is irrational step by step'') = 2"
    by code_simp
  then show ?thesis by (simp add: count_matches_filter)
qed

lemma counts_sum:
  "count_matches reasoning_patterns (ascii ''What is 2+2?'') = 0"
  "count_matches code_patterns (ascii ''What is 2+2?'') = 0"
  "count_matches simple_patterns (ascii ''What is 2+2?'') = 1"
  "count_matches multiStep_patterns (ascii ''What is 2+2?'') = 0"
  "count_matches technical_patterns (ascii ''What is 2+2?'') = 0"
  "count_matches creative_patterns (ascii ''What is 2+2?'') = 0"
  "count_matches constraints_patterns (ascii ''What is 2+2?'') = 0"
  "count_matches imperative_patterns (ascii ''What is 2+2?'') = 0"
  "count_matches outputFormat_patterns (ascii ''What is 2+2?'') = 0"
  "count_matches domain_patterns (ascii ''What is 2+2?'') = 0"
  "count_matches reference_patterns (ascii ''What is 2+2?'') = 0"
  "count_matches negation_patterns (ascii ''What is 2+2?'') = 0"
  by code_simp+

lemma scores_sum:
  "scoreDimensions (ascii ''What is 2+2?'') =
     [(''reasoning'', 0), (''code'', 0), (''simple'', 1 / 4), (''multiStep'', 0),
      (''technical'', 0), (''creative'', 0), (''constraints'', 0), (''imperative'', 0),
      (''outputFormat'', 0), (''domain'', 0), (''reference'', 0), (''negation'', 0),
      (''tokenCount'', 1 / 5), (''questionComplexity'', 1 / 3)]"
proof -
  have t: "length (split (ascii ''What is 2+2?'')) = 3"
    by (simp add: split_def ascii_def isWhiteSpace_def)
  have q: "questionMarks (ascii ''What is 2+2?'') = 1"
    by (simp add: questionMarks_def ascii_def)
  show ?thesis
    by (simp add: scoreDimensions_eq pattern_scores_eq PATTERNS_def counts_sum
          pattern_lengths t q token_score_def)
qed



section \<open>Claims about the classifier\<close>

text \<open>
  Claim C1. For every prompt, if at least two of the detection patterns of the reasoning
  dimension match it, \<^verbatim>\<open>route\<close> returns exactly the tier REASONING, the model that the
  tier map in use gives for REASONING, the confidence 0.97, the method \<^verbatim>\<open>rules\<close> and
  the scores; no weighted score, whatever the weighted sum and the other scores are.
\<close>

theorem route_reasoning_override:
  assumes "2 \<le> length (filter (\<lambda>p. test p prompt) reasoning_patterns)"
  shows "route prompt opts =
           \<lparr> tier = REASONING, model = tier_models_used opts REASONING, confidence = 0.97,
             weightedScore = None, method = Rules, scores = scoreDimensions prompt \<rparr>"
  using assms by (simp add: route_def Let_def count_matches_filter tier_models_used_def)

theorem route_reasoning_override_witness:
  "2 \<le> length (filter (\<lambda>p. test p (ascii ''Prove that sqrt(2) is irrational step by step'')) reasoning_patterns)
   \<and> route (ascii ''Prove that sqrt(2) is irrational step by step'') \<lparr> tierModels = None \<rparr> =
           \<lparr> tier = REASONING, model = Some (ascii ''deepseek/deepseek-reasoner''),
             confidence = 0.97, weightedScore = None, method = Rules,
             scores = scoreDimensions (ascii ''Prove that sqrt(2) is irrational step by step'') \<rparr>"
proof -
  have h: "2 \<le> length (filter (\<lambda>p. test p (ascii ''Prove that sqrt(2) is irrational step by step'')) reasoning_patterns)"
    by (simp add: reasoning_two)
  show ?thesis
    using h route_reasoning_override [OF h, of "\<lparr> tierModels = None \<rparr>"]
    by (simp add: tier_models_used_def DEFAULT_TIER_MODELS_def)
qed



text \<open>
  Claim C3, as stated: the model of every decision is defined, also with a tier map
  supplied by the caller. \<^verbatim>\<open>route\<close> does not check the map it is given: with a map that
  lacks the key REASONING, a prompt with two reasoning markers gets no model.
\<close>

theorem route_model_undefined:
  "model (route (ascii ''Prove that sqrt(2) is irrational step by step'')
            \<lparr> tierModels = Some [SIMPLE \<mapsto> ascii ''openai/gpt-4o-mini'',
                                 MEDIUM \<mapsto> ascii ''openai/gpt-4o'',
                                 COMPLEX \<mapsto> ascii ''anthropic/claude-opus-4''] \<rparr>) = None"
  by (simp add: route_def Let_def count_matches_filter reasoning_two)

text \<open>
  Claim C3, amended. The model of a decision is the entry of the selected tier in the tier
  map in use. It is defined whenever no map is supplied (the default map has the four
  keys) or the supplied map has all four keys.
\<close>

theorem route_model_lookup:
  "model (route prompt opts) = tier_models_used opts (tier (route prompt opts))
   \<and> ((tierModels opts = None \<or> (\<exists>m. tierModels opts = Some m \<and> dom m = UNIV))
        \<longrightarrow> model (route prompt opts) \<noteq> None)"
proof -
  have eq: "model (route prompt opts) = tier_models_used opts (tier (route prompt opts))"
    by (simp add: route_def Let_def tier_models_used_def)
  have "tier_models_used opts t \<noteq> None"
    if "tierModels opts = None \<or> (\<exists>m. tierModels opts = Some m \<and> dom m = UNIV)" for t
    using that
  proof
    assume "tierModels opts = None"
    then show ?thesis
      by (cases t) (simp_all add: tier_models_used_def DEFAULT_TIER_MODELS_def)
  next
    assume "\<exists>m. tierModels opts = Some m \<and> dom m = UNIV"
    then obtain m where m: "tierModels opts = Some m" "dom m = UNIV" by blast
    then have "t \<in> dom m" by simp
    then show ?thesis using m by (auto simp: tier_models_used_def)
  qed
  then show ?thesis using eq by simp
qed

theorem route_model_lookup_witness:
  "(tierModels \<lparr> tierModels = None \<rparr> = None
      \<or> (\<exists>m. tierModels \<lparr> tierModels = None \<rparr> = Some m \<and> dom m = UNIV))
   \<and> model (route (ascii ''Prove that sqrt(2) is irrational step by step'') \<lparr> tierModels = None \<rparr>)
       = Some (ascii ''deepseek/deepseek-reasoner'')"
proof -
  have t: "tier (route (ascii ''Prove that sqrt(2) is irrational step by step'') \<lparr> tierModels = None \<rparr>) = REASONING"
    by (simp add: route_def Let_def count_matches_filter reasoning_two)
  show ?thesis
    using route_model_lookup [of "ascii ''Prove that sqrt(2) is irrational step by step''" "\<lparr> tierModels = None \<rparr>"]
    by (simp add: t tier_models_used_def DEFAULT_TIER_MODELS_def)
qed





text \<open>
  Claim C9. For every prompt, \<^verbatim>\<open>scoreDimensions\<close> returns exactly the 14 dimension keys
  (those of the weight table), and every score lies between 0 and 1.
\<close>

theorem scoreDimensions_range:
  "map fst (scoreDimensions prompt) =
     [''reasoning'', ''code'', ''simple'', ''multiStep'', ''technical'', ''creative'',
      ''constraints'', ''imperative'', ''outputFormat'', ''domain'', ''reference'',
      ''negation'', ''tokenCount'', ''questionComplexity'']
   \<and> set (map fst (scoreDimensions prompt)) = set (map fst WEIGHTS)
   \<and> (\<forall>(d, v) \<in> set (scoreDimensions prompt). 0 \<le> v \<and> v \<le> 1)"
proof (intro conjI)
  show "map fst (scoreDimensions prompt) =
     [''reasoning'', ''code'', ''simple'', ''multiStep'', ''technical'', ''creative'',
      ''constraints'', ''imperative'', ''outputFormat'', ''domain'', ''reference'',
      ''negation'', ''tokenCount'', ''questionComplexity'']"
    by (rule scoreDimensions_keys)
  show "set (map fst (scoreDimensions prompt)) = set (map fst WEIGHTS)"
    by (rule keys_same)
  show "\<forall>(d, v) \<in> set (scoreDimensions prompt). 0 \<le> v \<and> v \<le> 1"
  proof (clarify)
    fix d v assume "(d, v) \<in> set (scoreDimensions prompt)"
    then consider "(d, v) \<in> set (pattern_scores prompt)"
      | "v = token_score (length (split prompt))"
      | "v = min (real (questionMarks prompt) / 3) 1"
      unfolding scoreDimensions_eq by auto
    then show "0 \<le> v \<and> v \<le> 1"
    proof cases
      case 1
      then show ?thesis by (rule pattern_score_bounds)
    next
      case 2
      then show ?thesis by (simp add: token_score_bounds)
    next
      case 3
      then show ?thesis by simp
    qed
  qed
qed

theorem scoreDimensions_range_witness:
  "(''questionComplexity'', 1 / 3) \<in> set (scoreDimensions (ascii ''What is 2+2?''))
   \<and> (0::real) \<le> 1 / 3 \<and> (1 / 3::real) \<le> 1
   \<and> length (scoreDimensions (ascii ''What is 2+2?'')) = 14"
proof -
  have m: "(''questionComplexity'', 1 / 3) \<in> set (scoreDimensions (ascii ''What is 2+2?''))"
    by (simp add: scores_sum)
  have "length (map fst (scoreDimensions (ascii ''What is 2+2?''))) = 14"
    using scoreDimensions_range [of "ascii ''What is 2+2?''"] by simp
  moreover have "(0::real) \<le> 1 / 3 \<and> (1 / 3::real) \<le> 1"
    using scoreDimensions_range [of "ascii ''What is 2+2?''"] m by blast
  ultimately show ?thesis using m by simp
qed

section \<open>Claims about the cost estimate\<close>

lemma rates_positive:
  "map_of MODEL_COSTS k = Some c \<Longrightarrow> 0 < input c \<and> 0 < output c"
  by (auto simp: MODEL_COSTS_def split: if_splits)

lemma estimateCost_cases:
  "estimateCost m i (Some n) = None \<or>
   (\<exists>a b. 0 < a \<and> 0 < b \<and> estimateCost m i (Some n) = Some (i / 1000000 * a + n / 1000000 * b)
           \<and> (\<forall>i' n'. estimateCost m i' (Some n') = Some (i' / 1000000 * a + n' / 1000000 * b)))"
proof (cases "inherited_property (property_key m)")
  case True
  then show ?thesis by (simp add: estimateCost_def)
next
  case False
  show ?thesis
  proof (cases "map_of MODEL_COSTS (property_key m)")
    case None
    with False show ?thesis
      by (intro disjI2 exI [of _ "1"] exI [of _ "5"]) (simp add: estimateCost_def)
  next
    case (Some c)
    with False rates_positive [OF Some] show ?thesis
      by (intro disjI2 exI [of _ "input c"] exI [of _ "output c"]) (simp add: estimateCost_def)
  qed
qed

lemma baseline_positive:
  assumes "0 \<le> i" "0 \<le> n" "estimateCost r i (Some n) = Some rc"
    "estimateCost b i (Some n) = Some bc" "bc < rc"
  shows "0 < bc"
proof -
  obtain x y where xy: "0 < x" "0 < y" "bc = i / 1000000 * x + n / 1000000 * y"
    using estimateCost_cases [of b i n] assms by auto
  obtain x' y' where xy': "rc = i / 1000000 * x' + n / 1000000 * y'"
    using estimateCost_cases [of r i n] assms by auto
  have nn: "0 \<le> i / 1000000 * x" "0 \<le> n / 1000000 * y" using xy assms by simp_all
  have "bc \<noteq> 0"
  proof
    assume z: "bc = 0"
    with nn xy(3) have "i / 1000000 * x = 0" "n / 1000000 * y = 0" by linarith+
    with xy have "i = 0" "n = 0" by simp_all
    with xy' have "rc = 0" by simp
    with z assms show False by simp
  qed
  moreover have "0 \<le> bc" using nn xy(3) by linarith
  ultimately show ?thesis by simp
qed

lemma cost_opus:
  "estimateCost (Some (ascii ''anthropic/claude-opus-4'')) 1000 (Some 500) = Some 0.0525"
  by (simp add: estimateCost_def property_key_def inherited_property_def MODEL_COSTS_def
        ascii_def)

lemma cost_flash:
  "estimateCost (Some (ascii ''gemini/gemini-2.0-flash'')) i (Some n) =
     Some (i / 1000000 * 0.10 + n / 1000000 * 0.40)"
  by (simp add: estimateCost_def property_key_def inherited_property_def MODEL_COSTS_def
        ascii_def)

text \<open>
  Claim C8. The savings of a model against itself are 0 for all token counts; the savings
  are 0 whenever the baseline cost is 0; and the savings are not clamped at 0: for token
  counts that are not negative, a routed model that costs more than the baseline has the
  negative savings \<open>1 - routed / baseline\<close>.
\<close>

theorem estimateSavings_properties:
  "estimateSavings (Some m) (Some m) inputTokens outputTokens = Some 0
   \<and> (estimateCost (Some b) i (Some n) = Some 0 \<longrightarrow>
        estimateSavings r (Some b) (Some i) (Some n) = Some 0)
   \<and> (0 \<le> i \<and> 0 \<le> n \<and> estimateCost r i (Some n) = Some rc
        \<and> estimateCost (Some b) i (Some n) = Some bc \<and> bc < rc \<longrightarrow>
        estimateSavings r (Some b) (Some i) (Some n) = Some (1 - rc / bc) \<and> 1 - rc / bc < 0)"
proof -
  have self: "estimateSavings (Some m) (Some m) inputTokens outputTokens = Some 0"
    by (simp add: estimateSavings_def Let_def split: option.splits)
  have zero: "estimateSavings r (Some b) (Some i) (Some n) = Some 0"
    if "estimateCost (Some b) i (Some n) = Some 0"
    using that by (simp add: estimateSavings_def)
  have neg: "estimateSavings r (Some b) (Some i) (Some n) = Some (1 - rc / bc) \<and> 1 - rc / bc < 0"
    if a: "0 \<le> i \<and> 0 \<le> n \<and> estimateCost r i (Some n) = Some rc
        \<and> estimateCost (Some b) i (Some n) = Some bc \<and> bc < rc"
  proof -
    have pos: "0 < bc"
      using a baseline_positive [of i n r rc "Some b" bc] by simp
    have "estimateSavings r (Some b) (Some i) (Some n) = Some ((bc - rc) / bc)"
      using a pos by (simp add: estimateSavings_def)
    moreover have "(bc - rc) / bc = 1 - rc / bc"
      using pos by (simp add: field_simps)
    moreover have "1 - rc / bc < 0"
      using a pos by (simp add: field_simps)
    ultimately show ?thesis by simp
  qed
  show ?thesis using self zero neg by blast
qed

theorem estimateSavings_properties_witness:
  "estimateSavings (Some (ascii ''anthropic/claude-opus-4'')) (Some (ascii ''anthropic/claude-opus-4''))
      None None = Some 0
   \<and> estimateCost (Some (ascii ''gemini/gemini-2.0-flash'')) 0 (Some 0) = Some 0
   \<and> estimateSavings (Some (ascii ''anthropic/claude-opus-4'')) (Some (ascii ''gemini/gemini-2.0-flash''))
        (Some 0) (Some 0) = Some 0
   \<and> estimateSavings (Some (ascii ''anthropic/claude-opus-4'')) (Some (ascii ''gemini/gemini-2.0-flash''))
        (Some 1000) (Some 500) = Some (- 174)"
proof -
  let ?opus = "ascii ''anthropic/claude-opus-4''"
  let ?flash = "ascii ''gemini/gemini-2.0-flash''"
  have z: "estimateCost (Some ?flash) 0 (Some 0) = Some 0"
    by (simp add: cost_flash)
  have c: "(0::real) \<le> 1000 \<and> (0::real) \<le> 500
        \<and> estimateCost (Some ?opus) 1000 (Some 500) = Some 0.0525
        \<and> estimateCost (Some ?flash) 1000 (Some 500) = Some 0.0003 \<and> (0.0003::real) < 0.0525"
    by (simp add: cost_opus cost_flash)
  have a: "estimateSavings (Some ?opus) (Some ?opus) None None = Some 0"
    using estimateSavings_properties [of ?opus None None] by blast
  have b: "estimateSavings (Some ?opus) (Some ?flash) (Some 0) (Some 0) = Some 0"
    using estimateSavings_properties [of ?opus None None ?flash 0 0 "Some ?opus"] z by blast
  have d: "estimateSavings (Some ?opus) (Some ?flash) (Some 1000) (Some 500)
             = Some (1 - 0.0525 / 0.0003)"
    using estimateSavings_properties
            [of ?opus None None ?flash 1000 500 "Some ?opus" "0.0525" "0.0003"] c
    by blast
  show ?thesis using a b d z by simp
qed

section \<open>Claims about the proxy\<close>

lemmas json_eval =
  JSON_parse_def ascii_def isDigit_def simple_escape_def hex_value_def set_property_def
  array_index_def scan_number_def scan_fraction_def scan_exponent_def normalise_def
  digit_value_def int_of_digits_def QuoteJSONString_def quote_unit_def is_high_def is_low_def
  unicode_escape_def hex_digit_def number_to_string_def digit_char_def

lemma health_not_completions: "\<not> includes (ascii ''/health'') (ascii ''/chat/completions'')"
  by (simp add: ascii_def)

lemma completions_request:
  assumes "req_method req = ascii ''POST''"
    and "includes (req_url req) (ascii ''/chat/completions'')"
  shows "handle_request opts req = on_end opts (req_body req)"
proof -
  have "req_url req \<noteq> ascii ''/health''"
    using assms(2) health_not_completions by auto
  then show ?thesis using assms by (simp add: handle_request_def)
qed



lemma completions_url: "includes (ascii ''/v1/chat/completions'') (ascii ''/chat/completions'')"
  by (simp add: ascii_def)

lemma parse_brace: "JSON_parse (ascii ''{'') = Inl (SyntaxError (ascii ''Unexpected token in JSON''))"
  by (simp add: json_eval)

lemma parse_auto:
  \<open>JSON_parse (ascii ''{"model":"auto","messages":[]}'') =
     Inr (JObject [(ascii ''model'', JString (ascii ''auto'')), (ascii ''messages'', JArray [])])\<close>
  by (simp add: json_eval)

lemma stringify_auto:
  \<open>JSON_stringify (JObject [(ascii ''model'', JString (ascii ''auto'')),
                             (ascii ''messages'', JArray [])])
     = ascii ''{"model":"auto","messages":[]}''\<close>
  by (simp add: json_eval)

text \<open>A body that is the JSON text \<^verbatim>\<open>null\<close> parses, and reading its model throws.\<close>

lemma null_body_answered_500:
  "action (handle_request opts
             \<lparr> req_method = ascii ''POST'', req_url = ascii ''/v1/chat/completions'',
               req_body = ascii ''null'' \<rparr>)
     = Respond 500 (JSON_stringify (JObject [(ascii ''error'',
                      JString (ascii ''Cannot read properties of null''))]))"
proof -
  have "JSON_parse (ascii ''null'') = Inr JNull" by (simp add: json_eval)
  then show ?thesis
    by (simp add: completions_request completions_url on_end_def member_def caught_def
          del: JSON_stringify.simps)
qed




text \<open>
  Claim C5. A completions request whose body is not valid JSON is answered with 500 and
  the JSON body \<^verbatim>\<open>{error: message}\<close>; and when the connection to the upstream fails for
  a request that the handler passes on, the client gets 502 and the JSON body
  \<^verbatim>\<open>{error: 'Bad gateway', details: message}\<close>.
\<close>

theorem malformed_json_and_upstream_failure:
  "(req_method req = ascii ''POST'' \<and> includes (req_url req) (ascii ''/chat/completions'')
      \<and> JSON_parse (req_body req) = Inl err \<longrightarrow>
      handle_request opts req =
        \<lparr> action = Respond 500 (JSON_stringify (JObject [(ascii ''error'', JString (message err))])),
          routing = None, routed = None, errored = (if onError opts then Some err else None) \<rparr>
      \<and> client_response opts req up =
          Some (500, JSON_stringify (JObject [(ascii ''error'', JString (message err))])))
   \<and> ((\<exists>b. action (handle_request opts req) = Pipe b \<or> action (handle_request opts req) = Send b)
        \<longrightarrow> client_response opts req (ConnectionError msg) =
              Some (502, JSON_stringify (JObject [(ascii ''error'', JString (ascii ''Bad gateway'')),
                                                 (ascii ''details'', JString msg)])))"
proof -
  have p1: "handle_request opts req =
        \<lparr> action = Respond 500 (JSON_stringify (JObject [(ascii ''error'', JString (message err))])),
          routing = None, routed = None, errored = (if onError opts then Some err else None) \<rparr>"
    if "req_method req = ascii ''POST'' \<and> includes (req_url req) (ascii ''/chat/completions'')
      \<and> JSON_parse (req_body req) = Inl err"
    using that by (simp add: completions_request on_end_def caught_def del: JSON_stringify.simps)
  have p2: "client_response opts req (ConnectionError msg) =
              Some (502, JSON_stringify (JObject [(ascii ''error'', JString (ascii ''Bad gateway'')),
                                                 (ascii ''details'', JString msg)]))"
    if "\<exists>b. action (handle_request opts req) = Pipe b \<or> action (handle_request opts req) = Send b"
    using that
    by (auto simp: client_response_def upstream_response_def simp del: JSON_stringify.simps)
  show ?thesis
    using p1 p2 by (simp add: client_response_def del: JSON_stringify.simps)
qed

theorem malformed_json_and_upstream_failure_witness:
  \<open>JSON_parse (ascii ''{'') = Inl (SyntaxError (ascii ''Unexpected token in JSON''))
   \<and> client_response \<lparr> proxy_tierModels = None, onRouted = False, onError = False \<rparr>
        \<lparr> req_method = ascii ''POST'', req_url = ascii ''/v1/chat/completions'',
          req_body = ascii ''{'' \<rparr> (Reply 200 [])
       = Some (500, ascii ''{"error":"Unexpected token in JSON"}'')
   \<and> action (handle_request \<lparr> proxy_tierModels = None, onRouted = False, onError = False \<rparr>
        \<lparr> req_method = ascii ''GET'', req_url = ascii ''/v1/models'', req_body = [] \<rparr>) = Pipe []
   \<and> client_response \<lparr> proxy_tierModels = None, onRouted = False, onError = False \<rparr>
        \<lparr> req_method = ascii ''GET'', req_url = ascii ''/v1/models'', req_body = [] \<rparr>
        (ConnectionError (ascii ''connect ECONNREFUSED''))
       = Some (502, ascii ''{"error":"Bad gateway","details":"connect ECONNREFUSED"}'')\<close>
proof -
  let ?opts = "\<lparr> proxy_tierModels = None, onRouted = False, onError = False \<rparr>"
  let ?bad = "\<lparr> req_method = ascii ''POST'', req_url = ascii ''/v1/chat/completions'',
                 req_body = ascii ''{'' \<rparr>"
  let ?get = "\<lparr> req_method = ascii ''GET'', req_url = ascii ''/v1/models'', req_body = [] \<rparr>"
  have h1: "req_method ?bad = ascii ''POST'' \<and> includes (req_url ?bad) (ascii ''/chat/completions'')
              \<and> JSON_parse (req_body ?bad) = Inl (SyntaxError (ascii ''Unexpected token in JSON''))"
    by (simp add: completions_url parse_brace)
  have h2: "action (handle_request ?opts ?get) = Pipe []"
    by (simp add: handle_request_def ascii_def)
  then have h3: "\<exists>b. action (handle_request ?opts ?get) = Pipe b
                   \<or> action (handle_request ?opts ?get) = Send b"
    by blast
  have s1: "JSON_stringify (JObject [(ascii ''error'', JString (message (SyntaxError (ascii ''Unexpected token in JSON''))))])
              = ascii ''{\"error\":\"Unexpected token in JSON\"}''"
    by (simp add: json_eval)
  have s2: "JSON_stringify (JObject [(ascii ''error'', JString (ascii ''Bad gateway'')),
                                     (ascii ''details'', JString (ascii ''connect ECONNREFUSED''))])
              = ascii ''{\"error\":\"Bad gateway\",\"details\":\"connect ECONNREFUSED\"}''"
    by (simp add: json_eval)
  from malformed_json_and_upstream_failure
         [of ?bad "SyntaxError (ascii ''Unexpected token in JSON'')" ?opts "Reply 200 []"]
       h1
  have a: "client_response ?opts ?bad (Reply 200 []) =
             Some (500, JSON_stringify (JObject [(ascii ''error'',
                     JString (message (SyntaxError (ascii ''Unexpected token in JSON''))))]))"
    by blast
  from malformed_json_and_upstream_failure
         [of ?get _ ?opts _ "ascii ''connect ECONNREFUSED''"] h3
  have b: "client_response ?opts ?get (ConnectionError (ascii ''connect ECONNREFUSED'')) =
             Some (502, JSON_stringify (JObject [(ascii ''error'', JString (ascii ''Bad gateway'')),
                            (ascii ''details'', JString (ascii ''connect ECONNREFUSED''))]))"
    by blast
  show ?thesis
    unfolding a b s1 s2 using h2 parse_brace by simp
qed

text \<open>
  Claim C10. For a completions request whose body parses to a payload whose model is an
  auto sentinel and whose messages are missing or an empty list, the handler makes no
  routing decision, does not call \<^verbatim>\<open>onRouted\<close>, and sends the upstream the payload as it
  is, the model still the sentinel.
\<close>

theorem sentinel_without_messages:
  assumes "req_method req = ascii ''POST''"
    and "includes (req_url req) (ascii ''/chat/completions'')"
    and "JSON_parse (req_body req) = Inr payload"
    and "member payload ''model'' = Inr original"
    and "isAutoRoute original"
    and "member payload ''messages'' = Inr None
         \<or> member payload ''messages'' = Inr (Some (JArray []))"
  shows "handle_request opts req =
           \<lparr> action = Send (JSON_stringify payload), routing = None, routed = None,
             errored = None \<rparr>
         \<and> member payload ''model'' = Inr original"
  using assms
  by (auto simp: completions_request on_end_def Let_def lastMessage_of_def
           simp del: JSON_stringify.simps)

theorem sentinel_without_messages_witness:
  \<open>JSON_parse (ascii ''{"model":"auto","messages":[]}'') =
     Inr (JObject [(ascii ''model'', JString (ascii ''auto'')), (ascii ''messages'', JArray [])])
   \<and> isAutoRoute (Some (JString (ascii ''auto'')))
   \<and> handle_request \<lparr> proxy_tierModels = None, onRouted = True, onError = True \<rparr>
        \<lparr> req_method = ascii ''POST'', req_url = ascii ''/v1/chat/completions'',
          req_body = ascii ''{"model":"auto","messages":[]}'' \<rparr>
       = \<lparr> action = Send (ascii ''{"model":"auto","messages":[]}''), routing = None,
           routed = None, errored = None \<rparr>\<close>
proof -
  let ?req = "\<lparr> req_method = ascii ''POST'', req_url = ascii ''/v1/chat/completions'',
                 req_body = ascii ''{\"model\":\"auto\",\"messages\":[]}'' \<rparr>"
  let ?payload = "JObject [(ascii ''model'', JString (ascii ''auto'')),
                           (ascii ''messages'', JArray [])]"
  have h1: "req_method ?req = ascii ''POST''" by simp
  have h2: "includes (req_url ?req) (ascii ''/chat/completions'')"
    by (simp add: completions_url)
  have h3: "JSON_parse (req_body ?req) = Inr ?payload"
    by (simp add: parse_auto)
  have h4: "member ?payload ''model'' = Inr (Some (JString (ascii ''auto'')))"
    by (simp add: member_def)
  have h5: "isAutoRoute (Some (JString (ascii ''auto'')))"
    by (simp add: isAutoRoute_def)
  have h6: "member ?payload ''messages'' = Inr None
            \<or> member ?payload ''messages'' = Inr (Some (JArray []))"
    by (simp add: member_def ascii_def)
  show ?thesis
    using sentinel_without_messages [OF h1 h2 h3 h4 h5 h6] h3 h5
    by (simp add: stringify_auto del: JSON_stringify.simps)
qed

end
